theory Spec2Isabelle
  imports Complex_Main
begin

section \<open>JavaScript values\<close>

text \<open>
  The handlers of \<^verbatim>\<open>server.js\<close> read JSON request bodies and SQL rows. A JavaScript
  number is modelled by an exact real, or one of the three special values; rounding to
  binary64 is not modelled. A field of a JSON object is one of the JSON scalars, or
  \<open>JUndefined\<close> when the key is absent; fields that hold arrays or objects are outside
  the model.
\<close>

datatype jsnum = Fin real | PInf | NInf | NaN

datatype jsval = JUndefined | JNull | JBool bool | JNum jsnum | JStr string

text \<open>ToBoolean, as used by \<^verbatim>\<open>!x\<close>, \<^verbatim>\<open>x && y\<close>, \<^verbatim>\<open>x || y\<close> and \<^verbatim>\<open>x ? a : b\<close>.\<close>

fun truthy_num :: "jsnum \<Rightarrow> bool" where
  "truthy_num (Fin x) = (x \<noteq> 0)"
| "truthy_num PInf = True"
| "truthy_num NInf = True"
| "truthy_num NaN = False"

fun truthy :: "jsval \<Rightarrow> bool" where
  "truthy JUndefined = False"
| "truthy JNull = False"
| "truthy (JBool b) = b"
| "truthy (JNum n) = truthy_num n"
| "truthy (JStr s) = (s \<noteq> [])"



subsection \<open>parseFloat\<close>

text \<open>
  \<^verbatim>\<open>parseFloat(v)\<close> converts \<open>v\<close> to a string, drops leading white space and reads the
  longest prefix that is a decimal literal: an optional sign, then \<^verbatim>\<open>Infinity\<close> or
  digits with an optional fraction and an optional exponent. Without such a prefix the
  result is \<open>NaN\<close>. A number converts to a string that reads back as itself. White space
  beyond ASCII is outside the byte strings of the model.
\<close>

definition is_ws :: "char \<Rightarrow> bool" where
  "is_ws c = (c \<in> set [CHR 0x09, CHR 0x0A, CHR 0x0B, CHR 0x0C, CHR 0x0D, CHR 0x20])"

definition is_digit :: "char \<Rightarrow> bool" where
  "is_digit c = (c \<in> set ''0123456789'')"

definition digit_val :: "char \<Rightarrow> nat" where
  "digit_val c = of_char c - 48"

definition digits_val :: "string \<Rightarrow> nat" where
  "digits_val ds = foldl (\<lambda>a c. 10 * a + digit_val c) 0 ds"

text \<open>The exponent part \<^verbatim>\<open>e\<close> or \<^verbatim>\<open>E\<close>, an optional sign and at least one digit; 0 when absent.\<close>

definition exponent_of :: "string \<Rightarrow> int" where
  "exponent_of r =
     (case r of
        [] \<Rightarrow> 0
      | c # r1 \<Rightarrow>
          if c = CHR ''e'' \<or> c = CHR ''E'' then
            (case r1 of
               [] \<Rightarrow> 0
             | d # r2 \<Rightarrow>
                 if d = CHR ''-'' then
                   (if takeWhile is_digit r2 = [] then 0
                    else - int (digits_val (takeWhile is_digit r2)))
                 else if d = CHR ''+'' then
                   (if takeWhile is_digit r2 = [] then 0
                    else int (digits_val (takeWhile is_digit r2)))
                 else int (digits_val (takeWhile is_digit r1)))
          else 0)"

definition scale10 :: "real \<Rightarrow> int \<Rightarrow> real" where
  "scale10 m e = (if 0 \<le> e then m * 10 ^ nat e else m / 10 ^ nat (- e))"

definition parseFloat_str :: "string \<Rightarrow> jsnum" where
  "parseFloat_str s =
     (let t = dropWhile is_ws s;
          neg = (t \<noteq> [] \<and> hd t = CHR ''-'');
          u = (if t \<noteq> [] \<and> (hd t = CHR ''-'' \<or> hd t = CHR ''+'') then tl t else t)
      in if take 8 u = ''Infinity'' then (if neg then NInf else PInf)
         else
           let ip = takeWhile is_digit u;
               r1 = dropWhile is_digit u;
               has_dot = (r1 \<noteq> [] \<and> hd r1 = CHR ''.'');
               fp = (if has_dot then takeWhile is_digit (tl r1) else []);
               r2 = (if has_dot then dropWhile is_digit (tl r1) else r1)
           in if ip = [] \<and> fp = [] then NaN
              else
                let mant = real (digits_val ip) + real (digits_val fp) / 10 ^ length fp;
                    v = scale10 mant (exponent_of r2)
                in Fin (if neg then - v else v))"

text \<open>
  A number reads back as itself; the other values are read from their string forms
  \<^verbatim>\<open>undefined\<close>, \<^verbatim>\<open>null\<close>, \<^verbatim>\<open>true\<close> and \<^verbatim>\<open>false\<close>.
\<close>

fun parseFloat :: "jsval \<Rightarrow> jsnum" where
  "parseFloat (JNum n) = n"
| "parseFloat (JStr s) = parseFloat_str s"
| "parseFloat JUndefined = parseFloat_str ''undefined''"
| "parseFloat JNull = parseFloat_str ''null''"
| "parseFloat (JBool b) = parseFloat_str (if b then ''true'' else ''false'')"

text \<open>\<^verbatim>\<open>v || null\<close>\<close>

definition or_null :: "jsval \<Rightarrow> jsval" where
  "or_null v = (if truthy v then v else JNull)"

section \<open>Decimal rendering of integers\<close>

text \<open>
  A template literal \<^verbatim>\<open>`T${newCount}`\<close> renders an integer-valued number in decimal,
  with a leading minus sign when it is negative.
\<close>

definition digit_char :: "nat \<Rightarrow> char" where
  "digit_char d = ''0123456789'' ! d"

fun show_nat :: "nat \<Rightarrow> string" where
  "show_nat n =
     (if n < 10 then [digit_char n] else show_nat (n div 10) @ [digit_char (n mod 10)])"

declare show_nat.simps [simp del]

definition show_int :: "int \<Rightarrow> string" where
  "show_int i = (if i < 0 then CHR ''-'' # show_nat (nat (- i)) else show_nat (nat i))"

section \<open>The store\<close>

text \<open>
  The tables the two creation handlers touch, with the columns of the schema
  (\<^verbatim>\<open>initializeDatabase\<close>, lines 43-103). Column names carry a prefix per table.
  \<open>counters\<close> has \<^verbatim>\<open>name\<close> as its primary key, so it is a map from names to values;
  \<^verbatim>\<open>trackingNumber\<close> and \<^verbatim>\<open>deliveryNoteNumber\<close> are \<^verbatim>\<open>UNIQUE\<close>.
\<close>

record shipment =
  s_id :: nat
  s_trackingNumber :: string
  s_senderName :: jsval
  s_senderContact :: jsval
  s_senderAddress :: jsval
  s_recipientName :: jsval
  s_recipientContact :: jsval
  s_recipientAddress :: jsval
  s_associatedJobNo :: jsval
  s_ceNumber :: jsval
  s_status :: string
  s_createdAt :: string
  s_courier_charge :: jsval

record shipment_element =
  e_id :: nat
  e_shipment_id :: nat
  e_description :: jsval
  e_quantity :: jsval

record delivery_note =
  n_id :: nat
  n_deliveryNoteNumber :: string
  n_clientName :: jsval
  n_date :: jsval
  n_address :: jsval
  n_contactPerson :: jsval
  n_contactNumber :: jsval
  n_jobNo :: jsval
  n_ceNumber :: jsval
  n_subtotal :: jsnum
  n_vat :: jsnum
  n_total :: jsnum
  n_createdAt :: string

record delivery_note_item =
  i_id :: nat
  i_delivery_note_id :: nat
  i_quantity :: jsval
  i_description :: jsval
  i_price :: jsval

record tables =
  counters :: "string \<rightharpoonup> int"
  shipments :: "shipment list"
  shipment_elements :: "shipment_element list"
  delivery_notes :: "delivery_note list"
  delivery_note_items :: "delivery_note_item list"

text \<open>
  One connection to the store: the tables as this connection sees them, and the
  snapshot taken by \<^verbatim>\<open>BEGIN TRANSACTION\<close> while a transaction is open. Outside a
  transaction every statement is committed at once.
\<close>

record db =
  tabs :: tables
  txn :: "tables option"

datatype error = SqlError | ConstraintError | TypeError

text \<open>
  The statements of the two handlers. A \<open>faults\<close> function says which of them the store
  rejects for a reason outside the model (a busy or failing disk); the \<open>nat\<close> is the
  position of the element or item in the request's array.
\<close>

datatype stmt =
    Begin | SelectCounter | InsertShipment | InsertElement nat
  | InsertNote | InsertItem nat | UpdateCounter | Commit | Rollback

type_synonym faults = "stmt \<Rightarrow> bool"


text \<open>An awaited statement: the error of a rejected promise or its value, and the store after it.\<close>

type_synonym 'a io = "db \<Rightarrow> (error + 'a) \<times> db"

definition bind_io :: "'a io \<Rightarrow> ('a \<Rightarrow> 'b io) \<Rightarrow> 'b io" where
  "bind_io m k d = (case m d of (Inl e, d') \<Rightarrow> (Inl e, d') | (Inr x, d') \<Rightarrow> k x d')"

definition return_io :: "'a \<Rightarrow> 'a io" where
  "return_io x d = (Inr x, d)"

definition throw_io :: "error \<Rightarrow> 'a io" where
  "throw_io e d = (Inl e, d)"

text \<open>A fresh \<^verbatim>\<open>AUTOINCREMENT\<close> id: one more than every id in the table.\<close>

definition next_id :: "nat list \<Rightarrow> nat" where
  "next_id ids = Suc (foldr max ids 0)"

definition begin_transaction :: "faults \<Rightarrow> unit io" where
  "begin_transaction \<phi> d =
     (if \<phi> Begin \<or> txn d \<noteq> None then (Inl SqlError, d)
      else (Inr (), d\<lparr>txn := Some (tabs d)\<rparr>))"

definition commit :: "faults \<Rightarrow> unit io" where
  "commit \<phi> d =
     (if \<phi> Commit \<or> txn d = None then (Inl SqlError, d)
      else (Inr (), d\<lparr>txn := None\<rparr>))"

definition rollback :: "faults \<Rightarrow> unit io" where
  "rollback \<phi> d =
     (if \<phi> Rollback then (Inl SqlError, d)
      else (case txn d of
              None \<Rightarrow> (Inl SqlError, d)
            | Some t \<Rightarrow> (Inr (), \<lparr>tabs = t, txn = None\<rparr>)))"

text \<open>\<^verbatim>\<open>SELECT currentNumber FROM counters WHERE name = ?\<close>: the row, or \<^verbatim>\<open>undefined\<close>.\<close>

definition select_counter :: "faults \<Rightarrow> string \<Rightarrow> int option io" where
  "select_counter \<phi> name d =
     (if \<phi> SelectCounter then (Inl SqlError, d)
      else (Inr (counters (tabs d) name), d))"

text \<open>
  \<^verbatim>\<open>UPDATE counters SET currentNumber = ? WHERE name = ?\<close>: changes the row when
  there is one, and no row otherwise.
\<close>

definition update_counter :: "faults \<Rightarrow> string \<Rightarrow> int \<Rightarrow> unit io" where
  "update_counter \<phi> name v d =
     (if \<phi> UpdateCounter then (Inl SqlError, d)
      else (Inr (),
            d\<lparr>tabs := (tabs d)\<lparr>counters :=
                 (if counters (tabs d) name = None then counters (tabs d)
                  else (counters (tabs d))(name \<mapsto> v))\<rparr>\<rparr>))"

text \<open>The \<^verbatim>\<open>INSERT\<close> statements resolve to the new row's id (\<^verbatim>\<open>lastID\<close>).\<close>

definition insert_shipment :: "faults \<Rightarrow> shipment \<Rightarrow> nat io" where
  "insert_shipment \<phi> row d =
     (if \<phi> InsertShipment then (Inl SqlError, d)
      else if s_trackingNumber row \<in> set (map s_trackingNumber (shipments (tabs d)))
      then (Inl ConstraintError, d)
      else (let i = next_id (map s_id (shipments (tabs d)))
            in (Inr i, d\<lparr>tabs := (tabs d)\<lparr>shipments :=
                          shipments (tabs d) @ [row\<lparr>s_id := i\<rparr>]\<rparr>\<rparr>)))"

definition insert_shipment_element :: "faults \<Rightarrow> nat \<Rightarrow> shipment_element \<Rightarrow> nat io" where
  "insert_shipment_element \<phi> k row d =
     (if \<phi> (InsertElement k) then (Inl SqlError, d)
      else (let i = next_id (map e_id (shipment_elements (tabs d)))
            in (Inr i, d\<lparr>tabs := (tabs d)\<lparr>shipment_elements :=
                          shipment_elements (tabs d) @ [row\<lparr>e_id := i\<rparr>]\<rparr>\<rparr>)))"

definition insert_delivery_note :: "faults \<Rightarrow> delivery_note \<Rightarrow> nat io" where
  "insert_delivery_note \<phi> row d =
     (if \<phi> InsertNote then (Inl SqlError, d)
      else if n_deliveryNoteNumber row \<in> set (map n_deliveryNoteNumber (delivery_notes (tabs d)))
      then (Inl ConstraintError, d)
      else (let i = next_id (map n_id (delivery_notes (tabs d)))
            in (Inr i, d\<lparr>tabs := (tabs d)\<lparr>delivery_notes :=
                          delivery_notes (tabs d) @ [row\<lparr>n_id := i\<rparr>]\<rparr>\<rparr>)))"


section \<open>Creating a shipment\<close>

text \<open>
  The body of \<^verbatim>\<open>POST /shipments\<close>. \<open>rq_elements\<close> is \<open>None\<close> when \<^verbatim>\<open>elements\<close> is absent
  or not an array; an element of the array is \<open>None\<close> when it is \<^verbatim>\<open>null\<close> (reading a
  property of it throws), and an object with its two fields otherwise (an element that
  is a number, a string or a boolean has neither field).
\<close>

record element =
  el_description :: jsval
  el_quantity :: jsval

record shipment_request =
  rq_senderName :: jsval
  rq_senderContact :: jsval
  rq_senderAddress :: jsval
  rq_recipientName :: jsval
  rq_recipientContact :: jsval
  rq_recipientAddress :: jsval
  rq_associatedJobNo :: jsval
  rq_ceNumber :: jsval
  rq_elements :: "element option list option"
  rq_courier_charge :: jsval

datatype response =
    Status400
  | Status500
  | Unanswered
  | ShipmentCreated string
  | DeliveryNoteCreated nat string

text \<open>The loop over \<^verbatim>\<open>elements\<close> (lines 319-323); \<open>k\<close> counts the elements passed.\<close>

fun insert_elements :: "faults \<Rightarrow> nat \<Rightarrow> nat \<Rightarrow> element option list \<Rightarrow> unit io" where
  "insert_elements \<phi> shipmentId k [] d = (Inr (), d)"
| "insert_elements \<phi> shipmentId k (None # es) d = (Inl TypeError, d)"
| "insert_elements \<phi> shipmentId k (Some el # es) d =
     (if truthy (el_description el) \<and> truthy (el_quantity el) then
        (case insert_shipment_element \<phi> k
                \<lparr>e_id = 0, e_shipment_id = shipmentId,
                 e_description = el_description el, e_quantity = el_quantity el\<rparr> d of
           (Inl e, d') \<Rightarrow> (Inl e, d')
         | (Inr _, d') \<Rightarrow> insert_elements \<phi> shipmentId (Suc k) es d')
      else insert_elements \<phi> shipmentId (Suc k) es d)"

text \<open>The \<^verbatim>\<open>try\<close> block (lines 294-328); \<open>now\<close> is \<^verbatim>\<open>new Date().toISOString()\<close>.\<close>

definition create_shipment_try :: "faults \<Rightarrow> string \<Rightarrow> shipment_request \<Rightarrow> string io" where
  "create_shipment_try \<phi> now req =
     bind_io (begin_transaction \<phi>) (\<lambda>_.
     bind_io (select_counter \<phi> ''shipmentCounter'') (\<lambda>counter.
       let newCount = (case counter of Some c \<Rightarrow> c | None \<Rightarrow> 1000) + 1;
           trackingNumber = ''T'' @ show_int newCount;
           finalCharge = (if truthy_num (parseFloat (rq_courier_charge req))
                          then JNum (parseFloat (rq_courier_charge req)) else JNull);
           shipmentCols =
             \<lparr>s_id = 0, s_trackingNumber = trackingNumber,
              s_senderName = rq_senderName req,
              s_senderContact = or_null (rq_senderContact req),
              s_senderAddress = rq_senderAddress req,
              s_recipientName = rq_recipientName req,
              s_recipientContact = or_null (rq_recipientContact req),
              s_recipientAddress = rq_recipientAddress req,
              s_associatedJobNo = or_null (rq_associatedJobNo req),
              s_ceNumber = or_null (rq_ceNumber req),
              s_status = ''Pending'', s_createdAt = now,
              s_courier_charge = finalCharge\<rparr>
       in
     bind_io (insert_shipment \<phi> shipmentCols) (\<lambda>shipmentId.
     bind_io (case rq_elements req of
                None \<Rightarrow> return_io ()
              | Some es \<Rightarrow> insert_elements \<phi> shipmentId 0 es) (\<lambda>_.
     bind_io (update_counter \<phi> ''shipmentCounter'' newCount) (\<lambda>_.
     bind_io (commit \<phi>) (\<lambda>_.
     return_io trackingNumber))))))"

text \<open>
  The handler (lines 281-334): the validation, the \<^verbatim>\<open>try\<close> block and the \<^verbatim>\<open>catch\<close>
  block, which rolls back and answers 500. When the rollback itself is rejected the
  handler's promise is rejected and no answer is sent.
\<close>

definition create_shipment :: "faults \<Rightarrow> string \<Rightarrow> shipment_request \<Rightarrow> db \<Rightarrow> response \<times> db" where
  "create_shipment \<phi> now req d =
     (if \<not> truthy (rq_senderName req) \<or> \<not> truthy (rq_senderAddress req)
         \<or> \<not> truthy (rq_recipientName req) \<or> \<not> truthy (rq_recipientAddress req)
      then (Status400, d)
      else (case create_shipment_try \<phi> now req d of
              (Inr trackingNumber, d') \<Rightarrow> (ShipmentCreated trackingNumber, d')
            | (Inl e, d') \<Rightarrow>
                (case rollback \<phi> d' of
                   (Inr _, d'') \<Rightarrow> (Status500, d'')
                 | (Inl _, d'') \<Rightarrow> (Unanswered, d''))))"

section \<open>Creating a delivery note\<close>










section \<open>Example requests and stores\<close>












section \<open>The line wrapper\<close>

text \<open>
  \<^verbatim>\<open>String.prototype.split(' ')\<close>: the pieces between single spaces, empty pieces kept;
  the result is never the empty array.
\<close>

fun split_on :: "char \<Rightarrow> string \<Rightarrow> string list" where
  "split_on c [] = [[]]"
| "split_on c (x # xs) =
     (if x = c then [] # split_on c xs
      else (case split_on c xs of y # ys \<Rightarrow> (x # y) # ys | [] \<Rightarrow> [[x]]))"

text \<open>
  The text measurer \<^verbatim>\<open>f.widthOfTextAtSize(text, size)\<close> belongs to the PDF library; it
  is a parameter of the model, of type \<open>measurer\<close>.
\<close>

type_synonym measurer = "string \<Rightarrow> real \<Rightarrow> real"

text \<open>
  The body of the \<^verbatim>\<open>for (const word of words)\<close> loop of \<^verbatim>\<open>wrapText\<close>, on the pair
  \<open>(lines, currentLine)\<close>.
\<close>

fun wrap_words :: "measurer \<Rightarrow> real \<Rightarrow> real \<Rightarrow> string list \<Rightarrow> string list \<times> string
    \<Rightarrow> string list \<times> string" where
  "wrap_words f fontSize maxWidth [] (lines, currentLine) = (lines, currentLine)"
| "wrap_words f fontSize maxWidth (word # words) (lines, currentLine) =
     (let testLine = currentLine @ (if currentLine \<noteq> [] then '' '' else []) @ word;
          testWidth = f testLine fontSize
      in if testWidth > maxWidth
         then wrap_words f fontSize maxWidth words (lines @ [currentLine], word)
         else wrap_words f fontSize maxWidth words (lines, testLine))"

text \<open>
  \<^verbatim>\<open>wrapText\<close> of the SQLite server (lines 579-595). The text is \<open>None\<close> for
  \<^verbatim>\<open>null\<close> or \<^verbatim>\<open>undefined\<close>; the empty string is falsy as well.
\<close>

definition wrapText :: "string option \<Rightarrow> measurer \<Rightarrow> real \<Rightarrow> real \<Rightarrow> string list" where
  "wrapText text f fontSize maxWidth =
     (let words = (case text of
                     None \<Rightarrow> []
                   | Some s \<Rightarrow> if s \<noteq> [] then split_on CHR '' '' s else []);
          (lines, currentLine) = wrap_words f fontSize maxWidth words ([], [])
      in lines @ [currentLine])"

text \<open>
  The replacement \<^verbatim>\<open>.replace(/(\r\n|\n|\r)/gm, " ")\<close>: scanning from the left, a
  carriage return followed by a line feed, a lone line feed or a lone carriage return
  becomes one space.
\<close>

fun sanitize :: "string \<Rightarrow> string" where
  "sanitize [] = []"
| "sanitize (c # cs) =
     (if c = CHR 0x0D then
        (case cs of
           d # ds \<Rightarrow> if d = CHR 0x0A then CHR '' '' # sanitize ds else CHR '' '' # sanitize cs
         | [] \<Rightarrow> [CHR '' ''])
      else if c = CHR 0x0A then CHR '' '' # sanitize cs
      else c # sanitize cs)"

text \<open>\<^verbatim>\<open>wrapText\<close> of the MySQL server (lines 1252-1269).\<close>

definition wrapText_mysql :: "string option \<Rightarrow> measurer \<Rightarrow> real \<Rightarrow> real \<Rightarrow> string list" where
  "wrapText_mysql text f fontSize maxWidth =
     (let sanitizedText = (case text of
                             None \<Rightarrow> []
                           | Some s \<Rightarrow> if s \<noteq> [] then sanitize s else []);
          words = split_on CHR '' '' sanitizedText;
          (lines, currentLine) = wrap_words f fontSize maxWidth words ([], [])
      in lines @ [currentLine])"

text \<open>A measurer for examples: every character is half the font size wide.\<close>

definition half_em :: measurer where
  "half_em s fontSize = real (length s) * fontSize / 2"

section \<open>The waybill\<close>

text \<open>
  The drawing calls of the PDF library, as instructions appended to a page. Colours are
  red, green and blue parts. \<open>DrawText text x y font size colour\<close> has no colour when the
  call gives none; \<open>DrawRectangle x y width height borderColor borderWidth\<close>;
  \<open>DrawLine startX startY endX endY thickness colour\<close>.
\<close>

datatype font = Helvetica | HelveticaBold

type_synonym rgb = "real \<times> real \<times> real"

datatype instr =
    DrawText string real real font real "rgb option"
  | DrawRectangle real real real real rgb real
  | DrawLine real real real real real rgb

record page =
  p_width :: real
  p_height :: real
  p_instrs :: "instr list"

definition padding :: real where
  "padding = 40"









subsection \<open>The finalization pass\<close>

text \<open>
  The instructions that the body of the loop over the pages (lines 694-709) draws on
  page \<open>i\<close> of \<open>n\<close>, a page of width \<open>pageWidth\<close>: \<open>font\<close> measures Helvetica, \<open>width\<close> is the
  width of the first page, \<open>disclaimer\<close> the setting of that name when there is one,
  \<open>creationDate\<close> the formatted creation time.
\<close>

definition page_footer ::
    "measurer \<Rightarrow> real \<Rightarrow> string option \<Rightarrow> string \<Rightarrow> nat \<Rightarrow> nat \<Rightarrow> real \<Rightarrow> instr list" where
  "page_footer font width disclaimer creationDate i n pageWidth =
     (let signatureY = padding + 80;
          signature =
            (if int i = int n - 1
             then [DrawRectangle padding (signatureY - 60) (pageWidth - padding * 2) 60
                     (0, 0, 0) 1.5,
                   DrawLine padding (signatureY - 20) (pageWidth - padding) (signatureY - 20)
                     0.5 (0.75, 0.75, 0.75),
                   DrawText ''Sender Signature:'' (padding + 10) (signatureY - 15)
                     Helvetica 10 None,
                   DrawText ''Recipient Signature:'' (width / 2 + 10) (signatureY - 15)
                     Helvetica 10 None]
             else []);
          disclaimerY = padding;
          disclaimerText =
            (case disclaimer of
               None \<Rightarrow> []
             | Some s \<Rightarrow>
                 if s \<noteq> []
                 then [DrawText s padding disclaimerY Helvetica 8 (Some (0.5, 0.5, 0.5))]
                 else []);
          dateWidth = font creationDate 10;
          pageNumberText = ''Page '' @ show_nat (i + 1) @ '' of '' @ show_nat n;
          pageNumberWidth = font pageNumberText 10
      in signature @ disclaimerText
         @ [DrawText creationDate (pageWidth - padding - dateWidth) disclaimerY Helvetica 10
              (Some (0.5, 0.5, 0.5)),
            DrawText pageNumberText ((pageWidth - pageNumberWidth) / 2) disclaimerY
              Helvetica 10 (Some (0.5, 0.5, 0.5))])"

text \<open>The page after the instructions of the loop body were appended to it.\<close>

definition stamp_page ::
    "measurer \<Rightarrow> real \<Rightarrow> string option \<Rightarrow> string \<Rightarrow> nat \<Rightarrow> nat \<Rightarrow> page \<Rightarrow> page" where
  "stamp_page font width disclaimer creationDate i n page =
     page\<lparr>p_instrs := p_instrs page
             @ page_footer font width disclaimer creationDate i n (p_width page)\<rparr>"

text \<open>\<^verbatim>\<open>for (let i = 0; i < pages.length; i++)\<close>, from \<open>i\<close> on.\<close>

function stamp_pages ::
    "measurer \<Rightarrow> real \<Rightarrow> string option \<Rightarrow> string \<Rightarrow> nat \<Rightarrow> page list \<Rightarrow> page list" where
  "stamp_pages font width disclaimer creationDate i pages =
     (if i < length pages
      then stamp_pages font width disclaimer creationDate (i + 1)
             (pages[i := stamp_page font width disclaimer creationDate i (length pages)
                           (pages ! i)])
      else pages)"
  by pat_completeness auto
termination
  by (relation "measure (\<lambda>(font, width, disclaimer, creationDate, i, pages). length pages - i)")
     auto

declare stamp_pages.simps [simp del]

definition is_rectangle :: "instr \<Rightarrow> bool" where
  "is_rectangle op = (case op of DrawRectangle x y w h c b \<Rightarrow> True | _ \<Rightarrow> False)"

definition blank_page :: page where
  "blank_page = \<lparr>p_width = 595.28, p_height = 841.89, p_instrs = []\<rparr>"


definition two_blank_pages :: "page list" where
  "two_blank_pages = [blank_page, blank_page]"

section \<open>Properties of the line wrapper\<close>

lemma split_on_nonempty: "split_on c s \<noteq> []"
  by (induction s) (auto split: list.splits)

lemma sanitize_no_newline: "CHR 0x0A \<notin> set (sanitize s) \<and> CHR 0x0D \<notin> set (sanitize s)"
  by (induction s rule: sanitize.induct) (auto split: list.splits)

lemma sanitize_unchanged:
  "CHR 0x0A \<notin> set s \<Longrightarrow> CHR 0x0D \<notin> set s \<Longrightarrow> sanitize s = s"
  by (induction s rule: sanitize.induct) (auto split: list.splits)

lemma sanitize_idem: "sanitize (sanitize s) = sanitize s"
  using sanitize_no_newline [of s] by (simp add: sanitize_unchanged)

lemma sanitize_empty_iff: "sanitize s = [] \<longleftrightarrow> s = []"
  by (cases s) (auto split: list.splits)

text \<open>
  The MySQL server's wrapper treats a text as the paragraph obtained by replacing
  its line breaks with spaces.
\<close>

lemma wrapText_mysql_sanitize:
  "wrapText_mysql (Some s) f fontSize maxWidth =
   wrapText_mysql (Some (sanitize s)) f fontSize maxWidth"
  by (simp add: wrapText_mysql_def sanitize_idem sanitize_empty_iff)

text \<open>
  C8. For an absent or empty text the wrapper returns the single line \<open>''''\<close>, and for
  every text its result has at least one line. The SQLite server's wrapper does so for
  every measurer and width; the MySQL server's wrapper measures the empty word first, so
  it returns the single empty line whenever the empty line fits the width, as it does at
  every call (the widths passed are positive parts of the page width).
\<close>

theorem wrapText_never_empty:
  "wrapText None f fontSize maxWidth = ['''']
   \<and> wrapText (Some '''') f fontSize maxWidth = ['''']
   \<and> wrapText text f fontSize maxWidth \<noteq> []
   \<and> wrapText_mysql text f fontSize maxWidth \<noteq> []
   \<and> (f '''' fontSize \<le> maxWidth \<longrightarrow>
        wrapText_mysql None f fontSize maxWidth = ['''']
        \<and> wrapText_mysql (Some '''') f fontSize maxWidth = [''''])"
  by (simp add: wrapText_def wrapText_mysql_def split: prod.splits)

theorem wrapText_never_empty_witness:
  "half_em '''' 10 \<le> 100
   \<and> wrapText_mysql None half_em 10 100 = ['''']
   \<and> wrapText_mysql (Some '''') half_em 10 100 = ['''']
   \<and> wrapText (Some ''N/A'') half_em 10 100 \<noteq> []"
  using wrapText_never_empty [of half_em 10 100 "Some ''N/A''"]
  by (simp add: half_em_def)

text \<open>
  C9. The SQLite server's wrapper does not replace line breaks: the text made of \<open>a\<close>, a
  line feed and \<open>b\<close> stays one word and comes back as one line that holds the line feed,
  while \<open>a b\<close> is split into two words and comes back as the line \<open>a b\<close>. The MySQL
  server's wrapper returns the line \<open>a b\<close> for both.
\<close>

theorem wrapText_keeps_newline:
  "wrapText (Some [CHR ''a'', CHR 0x0A, CHR ''b'']) half_em 10 100 = [[CHR ''a'', CHR 0x0A, CHR ''b'']]
   \<and> wrapText (Some ''a b'') half_em 10 100 = [''a b'']
   \<and> wrapText_mysql (Some [CHR ''a'', CHR 0x0A, CHR ''b'']) half_em 10 100 = [''a b'']
   \<and> wrapText_mysql (Some ''a b'') half_em 10 100 = [''a b'']"
  by (simp add: wrapText_def wrapText_mysql_def half_em_def)

section \<open>Statements of the store\<close>


lemma bind_io_InrE:
  assumes "bind_io m k d = (Inr y, d'')"
  obtains x d' where "m d = (Inr x, d')" and "k x d' = (Inr y, d'')"
  using assms by (auto simp: bind_io_def split: prod.splits sum.splits)

lemma begin_transaction_Inr:
  "begin_transaction \<phi> d = (Inr x, d') \<Longrightarrow>
   txn d = None \<and> txn d' = Some (tabs d) \<and> tabs d' = tabs d"
  by (auto simp: begin_transaction_def split: if_splits)


lemma select_counter_Inr:
  "select_counter \<phi> name d = (Inr x, d') \<Longrightarrow> d' = d \<and> x = counters (tabs d) name"
  by (auto simp: select_counter_def split: if_splits)


lemma insert_shipment_Inr:
  "insert_shipment \<phi> row d = (Inr i, d') \<Longrightarrow>
   txn d' = txn d \<and> counters (tabs d') = counters (tabs d)
   \<and> shipments (tabs d') = shipments (tabs d) @ [row\<lparr>s_id := i\<rparr>]"
  by (auto simp: insert_shipment_def Let_def split: if_splits)


lemma insert_elements_frame:
  "insert_elements \<phi> sid k es d = (r, d') \<Longrightarrow>
   txn d' = txn d \<and> counters (tabs d') = counters (tabs d)
   \<and> shipments (tabs d') = shipments (tabs d)"
  by (induction \<phi> sid k es d rule: insert_elements.induct)
     (auto simp: insert_shipment_element_def Let_def split: if_splits prod.splits sum.splits)

lemma elements_step_frame:
  "(case es of None \<Rightarrow> return_io () | Some xs \<Rightarrow> insert_elements \<phi> sid 0 xs) d = (r, d') \<Longrightarrow>
   txn d' = txn d \<and> counters (tabs d') = counters (tabs d)
   \<and> shipments (tabs d') = shipments (tabs d)"
  by (cases es) (auto simp: return_io_def dest: insert_elements_frame)

lemma update_counter_Inr:
  "update_counter \<phi> name v d = (Inr x, d') \<Longrightarrow>
   txn d' = txn d \<and> shipments (tabs d') = shipments (tabs d)
   \<and> delivery_notes (tabs d') = delivery_notes (tabs d)
   \<and> delivery_note_items (tabs d') = delivery_note_items (tabs d)
   \<and> counters (tabs d') = (if counters (tabs d) name = None then counters (tabs d)
                            else (counters (tabs d))(name \<mapsto> v))"
  by (auto simp: update_counter_def split: if_splits)


lemma commit_Inr:
  "commit \<phi> d = (Inr x, d') \<Longrightarrow> txn d' = None \<and> tabs d' = tabs d"
  by (auto simp: commit_def split: if_splits)




lemma show_int_1001: "show_int 1001 = ''1001''"
  by code_simp

lemma create_shipment_try_absent:
  assumes ok: "create_shipment_try \<phi> now req d = (Inr tn, d')"
    and c: "counters (tabs d) ''shipmentCounter'' = None"
  shows "counters (tabs d') ''shipmentCounter'' = None \<and> tn = ''T1001''"
  using ok unfolding create_shipment_try_def Let_def
  apply (elim bind_io_InrE)
  apply (drule begin_transaction_Inr select_counter_Inr insert_shipment_Inr update_counter_Inr
           commit_Inr elements_step_frame)+
  using c apply (clarsimp simp: return_io_def show_int_1001)
  done



lemma insert_delivery_note_txn: "insert_delivery_note \<phi> row d = (r, d') \<Longrightarrow> txn d' = txn d"
  by (auto simp: insert_delivery_note_def Let_def split: if_splits)











lemma throw_or_return_state:
  "(case r of Inl e \<Rightarrow> throw_io e | Inr v \<Rightarrow> return_io v) d = (r', d') \<Longrightarrow> d' = d"
  by (cases r) (auto simp: throw_io_def return_io_def)


section \<open>The sequence allocator\<close>

lemma create_shipment_created:
  "create_shipment \<phi> now req d = (ShipmentCreated tn, d') \<Longrightarrow>
   create_shipment_try \<phi> now req d = (Inr tn, d')"
  by (auto simp: create_shipment_def split: if_splits prod.splits sum.splits)












text \<open>
  When the counter row is absent the handler computes 1001 from the default, but its
  \<^verbatim>\<open>UPDATE\<close> changes no row, so the row is still absent after the shipment is created.
\<close>

lemma absent_row_stays_absent:
  assumes "create_shipment \<phi> now req d = (ShipmentCreated tn, d')"
    and "counters (tabs d) ''shipmentCounter'' = None"
  shows "counters (tabs d') ''shipmentCounter'' = None \<and> tn = ''T1001''"
  using create_shipment_try_absent [OF create_shipment_created [OF assms(1)] assms(2)] .



section \<open>Delivery note figures\<close>











section \<open>The waybill footer and header\<close>

lemma stamp_pages_length:
  "length (stamp_pages font width disclaimer creationDate i pages) = length pages"
proof (induction font width disclaimer creationDate i pages rule: stamp_pages.induct)
  case (1 font width disclaimer creationDate i pages)
  show ?case
  proof (cases "i < length pages")
    case True
    with "1.IH" show ?thesis by (subst stamp_pages.simps) simp
  next
    case False
    then show ?thesis by (subst stamp_pages.simps) simp
  qed
qed

lemma stamp_pages_nth:
  "j < length pages \<Longrightarrow>
   stamp_pages font width disclaimer creationDate i pages ! j =
     (if i \<le> j then stamp_page font width disclaimer creationDate j (length pages) (pages ! j)
      else pages ! j)"
proof (induction font width disclaimer creationDate i pages rule: stamp_pages.induct)
  case (1 font width disclaimer creationDate i pages)
  show ?case
  proof (cases "i < length pages")
    case True
    let ?pages = "pages[i := stamp_page font width disclaimer creationDate i (length pages)
                           (pages ! i)]"
    from "1.prems" have j: "j < length ?pages" by simp
    have "stamp_pages font width disclaimer creationDate i pages ! j
        = stamp_pages font width disclaimer creationDate (i + 1) ?pages ! j"
      using True by (subst stamp_pages.simps) simp
    also have "\<dots> = (if i + 1 \<le> j
        then stamp_page font width disclaimer creationDate j (length ?pages) (?pages ! j)
        else ?pages ! j)"
      using "1.IH" [OF True j] .
    also have "\<dots> = (if i \<le> j
        then stamp_page font width disclaimer creationDate j (length pages) (pages ! j)
        else pages ! j)"
      using True "1.prems" by (cases "j = i") (auto simp: nth_list_update)
    finally show ?thesis .
  next
    case False
    with "1.prems" show ?thesis by (subst stamp_pages.simps) simp
  qed
qed

lemma is_rectangle_simps:
  "is_rectangle (DrawRectangle x y w h c b)"
  "\<not> is_rectangle (DrawText t x y f s col)"
  "\<not> is_rectangle (DrawLine a b c' d e g)"
  by (simp_all add: is_rectangle_def)

lemma page_number_in_footer:
  "DrawText (''Page '' @ show_nat (i + 1) @ '' of '' @ show_nat n)
     ((pageWidth - font (''Page '' @ show_nat (i + 1) @ '' of '' @ show_nat n) 10) / 2)
     padding Helvetica 10 (Some (0.5, 0.5, 0.5))
   \<in> set (page_footer font width disclaimer creationDate i n pageWidth)"
  by (simp add: page_footer_def Let_def)

lemma disclaimer_in_footer:
  "s \<noteq> [] \<Longrightarrow>
   DrawText s padding padding Helvetica 8 (Some (0.5, 0.5, 0.5))
   \<in> set (page_footer font width (Some s) creationDate i n pageWidth)"
  by (simp add: page_footer_def Let_def)

lemma signature_in_footer:
  "(\<exists>op \<in> set (page_footer font width disclaimer creationDate i n pageWidth). is_rectangle op)
   \<longleftrightarrow> int i = int n - 1"
  unfolding list_ex_iff [symmetric] page_footer_def Let_def
  by (cases disclaimer) (simp_all add: is_rectangle_simps)

text \<open>
  C6. The finalization pass keeps the number \<open>N\<close> of pages and appends to every page \<open>i\<close>
  (counted from 0) the footer of page \<open>i\<close> of \<open>N\<close>. The footer holds the text
  \<open>Page i+1 of N\<close>, centred by its measured width at the height of the bottom padding;
  it holds the disclaimer whenever the setting is a non-empty string; and it holds the
  rectangle of the signature block exactly when the page is the last one.
\<close>

theorem finalization_stamps_pages:
  assumes i: "i < length pages"
  shows "length (stamp_pages font width disclaimer creationDate 0 pages) = length pages
    \<and> p_instrs (stamp_pages font width disclaimer creationDate 0 pages ! i)
        = p_instrs (pages ! i)
          @ page_footer font width disclaimer creationDate i (length pages) (p_width (pages ! i))
    \<and> DrawText (''Page '' @ show_nat (i + 1) @ '' of '' @ show_nat (length pages))
        ((p_width (pages ! i)
           - font (''Page '' @ show_nat (i + 1) @ '' of '' @ show_nat (length pages)) 10) / 2)
        padding Helvetica 10 (Some (0.5, 0.5, 0.5))
      \<in> set (page_footer font width disclaimer creationDate i (length pages)
               (p_width (pages ! i)))
    \<and> (\<forall>s. disclaimer = Some s \<and> s \<noteq> [] \<longrightarrow>
          DrawText s padding padding Helvetica 8 (Some (0.5, 0.5, 0.5))
          \<in> set (page_footer font width disclaimer creationDate i (length pages)
                   (p_width (pages ! i))))
    \<and> ((\<exists>op \<in> set (page_footer font width disclaimer creationDate i (length pages)
                       (p_width (pages ! i))). is_rectangle op)
         \<longleftrightarrow> i + 1 = length pages)"
proof -
  have last: "(int i = int (length pages) - 1) = (i + 1 = length pages)" by auto
  have "stamp_pages font width disclaimer creationDate 0 pages ! i
      = stamp_page font width disclaimer creationDate i (length pages) (pages ! i)"
    using i by (simp add: stamp_pages_nth)
  then have "p_instrs (stamp_pages font width disclaimer creationDate 0 pages ! i)
        = p_instrs (pages ! i)
          @ page_footer font width disclaimer creationDate i (length pages) (p_width (pages ! i))"
    by (simp add: stamp_page_def)
  moreover note stamp_pages_length [of font width disclaimer creationDate 0 pages]
    page_number_in_footer [of i "length pages" "p_width (pages ! i)" font width disclaimer
      creationDate]
    signature_in_footer [of font width disclaimer creationDate i "length pages"
      "p_width (pages ! i)", unfolded last]
  moreover have "\<forall>s. disclaimer = Some s \<and> s \<noteq> [] \<longrightarrow>
          DrawText s padding padding Helvetica 8 (Some (0.5, 0.5, 0.5))
          \<in> set (page_footer font width disclaimer creationDate i (length pages)
                   (p_width (pages ! i)))"
    using disclaimer_in_footer by blast
  ultimately show ?thesis by blast
qed

lemma page_two_of_two: "''Page '' @ show_nat (1 + 1) @ '' of '' @ show_nat 2 = ''Page 2 of 2''"
  by code_simp

theorem finalization_stamps_pages_witness:
  "DrawText ''Page 2 of 2'' 270.14 padding Helvetica 10 (Some (0.5, 0.5, 0.5))
     \<in> set (p_instrs (stamp_pages half_em 595.28 (Some ''E&OE'') ''2024/05/01, 10:00:00'' 0
                 two_blank_pages ! 1))
   \<and> DrawText ''E&OE'' padding padding Helvetica 8 (Some (0.5, 0.5, 0.5))
     \<in> set (p_instrs (stamp_pages half_em 595.28 (Some ''E&OE'') ''2024/05/01, 10:00:00'' 0
                 two_blank_pages ! 1))
   \<and> (\<exists>op \<in> set (p_instrs (stamp_pages half_em 595.28 (Some ''E&OE'')
                ''2024/05/01, 10:00:00'' 0 two_blank_pages ! 1)). is_rectangle op)"
proof -
  have i: "1 < length two_blank_pages" by (simp add: two_blank_pages_def)
  have n: "length two_blank_pages = 2" by (simp add: two_blank_pages_def)
  have w: "p_width (two_blank_pages ! 1) = 595.28"
    by (simp add: two_blank_pages_def blank_page_def)
  have x: "(595.28 - half_em ''Page 2 of 2'' 10) / 2 = 270.14" by (simp add: half_em_def)
  note t = finalization_stamps_pages [OF i, where font = half_em and width = "595.28"
      and disclaimer = "Some ''E&OE''" and creationDate = "''2024/05/01, 10:00:00''",
      unfolded n w page_two_of_two x]
  from t have "p_instrs (stamp_pages half_em 595.28 (Some ''E&OE'') ''2024/05/01, 10:00:00'' 0
                 two_blank_pages ! 1)
      = p_instrs (two_blank_pages ! 1)
        @ page_footer half_em 595.28 (Some ''E&OE'') ''2024/05/01, 10:00:00'' 1 2 595.28"
    by blast
  moreover from t have "DrawText ''Page 2 of 2'' 270.14 padding Helvetica 10 (Some (0.5, 0.5, 0.5))
      \<in> set (page_footer half_em 595.28 (Some ''E&OE'') ''2024/05/01, 10:00:00'' 1 2 595.28)"
    by blast
  moreover from t have "DrawText ''E&OE'' padding padding Helvetica 8 (Some (0.5, 0.5, 0.5))
      \<in> set (page_footer half_em 595.28 (Some ''E&OE'') ''2024/05/01, 10:00:00'' 1 2 595.28)"
    by simp
  moreover from t have "\<exists>op \<in> set (page_footer half_em 595.28 (Some ''E&OE'')
      ''2024/05/01, 10:00:00'' 1 2 595.28). is_rectangle op"
    by simp
  ultimately show ?thesis by auto
qed



end
